theory Spec2Isabelle
  imports Main "HOL-Library.Sublist"
begin

section \<open>Python values\<close>

text \<open>
  A Python \<open>str\<close> is a sequence of Unicode code points, a \<open>bytes\<close> object a sequence
  of octets. String literals of the scripts are written with \<open>lit\<close>; the umlauts of the
  German messages are the code points \<open>0xE4\<close> and \<open>0xFC\<close>.
\<close>

type_synonym pystr = "nat list"

type_synonym bytes = "char list"

definition lit :: "string \<Rightarrow> pystr" where
  "lit cs = map of_char cs"

definition quoted :: "pystr \<Rightarrow> pystr" where
  \<comment> \<open>\<open>'{x}'\<close> inside an f-string: the text between two apostrophes\<close>
  "quoted x = [39] @ x @ [39]"

fun digits :: "nat \<Rightarrow> pystr" where
  "digits n = (if n < 10 then [48 + n] else digits (n div 10) @ [48 + n mod 10])"

declare digits.simps [simp del]

definition format_d :: "int \<Rightarrow> pystr" where
  \<comment> \<open>the \<open>%d\<close> conversion\<close>
  "format_d i = (if i < 0 then lit ''-'' @ digits (nat (- i)) else digits (nat i))"

section \<open>The host system\<close>

text \<open>
  The scripts only talk to the outside: the file system, the shell and the standard
  output. The file system is a map from the path strings the scripts use to the kind of
  entry found there; \<open>ext\<close> is everything else an external command can read or change
  (the network, the Git repository, the Conda installation).
\<close>

datatype node = File | Dir

record 'e world =
  entries :: "pystr \<Rightarrow> node option"
  ext :: 'e

text \<open>
  What a shell command line did: it ran and left an exit status and its standard output,
  or the process could not be started. A negative status is the number of the signal
  that ended the shell.
\<close>

datatype proc_result = Exited int bytes | Spawn_failed pystr

text \<open>
  The behaviour of the machine the scripts run on is a parameter: what a command line
  given to the shell does, whether the operating system lets a missing directory be
  made (and what else, such as missing parents, appears with it), and the names of the
  signals \<open>signal.Signals\<close> knows.
\<close>

record 'e platform =
  shell :: "pystr \<Rightarrow> 'e world \<Rightarrow> proc_result \<times> 'e world"
  os_mkdir :: "pystr \<Rightarrow> 'e world \<Rightarrow> pystr option \<times> 'e world"
  signal_names :: "nat \<Rightarrow> pystr option"

section \<open>Exceptions, observable events and the execution monad\<close>

datatype exn =
    CalledProcessError pystr int
  | OSError pystr
  | UnicodeDecodeError
  | SystemExit int

text \<open>
  The trace records, in order, every line given to \<open>print\<close> (without the newline that
  \<open>print\<close> appends) and every subprocess started through the shell.
\<close>

datatype event =
    Print pystr
  | Run pystr proc_result
  | Check_output pystr proc_result

type_synonym 'e st = "'e world \<times> event list"

type_synonym ('e, 'a) py = "'e st \<Rightarrow> (exn + 'a) \<times> 'e st"

definition py_return :: "'a \<Rightarrow> ('e, 'a) py" where
  "py_return x = (\<lambda>st. (Inr x, st))"

definition py_raise :: "exn \<Rightarrow> ('e, 'a) py" where
  "py_raise e = (\<lambda>st. (Inl e, st))"

definition py_bind :: "('e, 'a) py \<Rightarrow> ('a \<Rightarrow> ('e, 'b) py) \<Rightarrow> ('e, 'b) py" where
  "py_bind m f = (\<lambda>st. case m st of
      (Inl e, st') \<Rightarrow> (Inl e, st')
    | (Inr x, st') \<Rightarrow> f x st')"

definition py_seq :: "('e, 'a) py \<Rightarrow> ('e, 'b) py \<Rightarrow> ('e, 'b) py" where
  "py_seq m n = py_bind m (\<lambda>_. n)"

definition except_CalledProcessError ::
  "('e, 'a) py \<Rightarrow> (pystr \<Rightarrow> int \<Rightarrow> ('e, 'a) py) \<Rightarrow> ('e, 'a) py" where
  \<comment> \<open>\<open>try: m except subprocess.CalledProcessError as e: h\<close>, where \<open>h\<close> gets the command
      and the exit status \<open>e\<close> carries; every other exception passes through\<close>
  "except_CalledProcessError m h = (\<lambda>st. case m st of
      (Inl (CalledProcessError cmd rc), st') \<Rightarrow> h cmd rc st'
    | (Inl (OSError err), st') \<Rightarrow> (Inl (OSError err), st')
    | (Inl UnicodeDecodeError, st') \<Rightarrow> (Inl UnicodeDecodeError, st')
    | (Inl (SystemExit n), st') \<Rightarrow> (Inl (SystemExit n), st')
    | (Inr x, st') \<Rightarrow> (Inr x, st'))"

subsection \<open>Library calls\<close>

definition print :: "pystr \<Rightarrow> ('e, unit) py" where
  "print line = (\<lambda>(w, tr). (Inr (), (w, tr @ [Print line])))"

definition sys_exit :: "int \<Rightarrow> ('e, 'a) py" where
  "sys_exit n = py_raise (SystemExit n)"

definition subprocess_run :: "'e platform \<Rightarrow> pystr \<Rightarrow> ('e, unit) py" where
  \<comment> \<open>\<open>subprocess.run(cmd, shell=True, check=True)\<close>; the child writes to the inherited
      standard output\<close>
  "subprocess_run P cmd = (\<lambda>(w, tr). case shell P cmd w of
      (Spawn_failed err, w') \<Rightarrow> (Inl (OSError err), (w', tr @ [Run cmd (Spawn_failed err)]))
    | (Exited rc out, w') \<Rightarrow>
        (if rc \<noteq> 0 then Inl (CalledProcessError cmd rc) else Inr (),
         (w', tr @ [Run cmd (Exited rc out)])))"

definition check_output :: "'e platform \<Rightarrow> pystr \<Rightarrow> ('e, bytes) py" where
  \<comment> \<open>\<open>subprocess.check_output(cmd, shell=True)\<close>: the standard output is captured and
      returned\<close>
  "check_output P cmd = (\<lambda>(w, tr). case shell P cmd w of
      (Spawn_failed err, w') \<Rightarrow>
        (Inl (OSError err), (w', tr @ [Check_output cmd (Spawn_failed err)]))
    | (Exited rc out, w') \<Rightarrow>
        (if rc \<noteq> 0 then Inl (CalledProcessError cmd rc) else Inr out,
         (w', tr @ [Check_output cmd (Exited rc out)])))"

definition os_path_exists :: "'e world \<Rightarrow> pystr \<Rightarrow> bool" where
  "os_path_exists w p = (entries w p \<noteq> None)"

definition os_makedirs_exist_ok :: "'e platform \<Rightarrow> pystr \<Rightarrow> ('e, unit) py" where
  \<comment> \<open>\<open>os.makedirs(d, exist_ok=True)\<close>: an existing directory is left alone, an existing
      file is an error, and a missing path is made unless the operating system refuses\<close>
  "os_makedirs_exist_ok P d = (\<lambda>(w, tr). case entries w d of
      Some Dir \<Rightarrow> (Inr (), (w, tr))
    | Some File \<Rightarrow> (Inl (OSError (lit ''File exists'')), (w, tr))
    | None \<Rightarrow>
        (case os_mkdir P d w of
           (Some err, w') \<Rightarrow> (Inl (OSError err), (w', tr))
         | (None, w') \<Rightarrow> (Inr (), (w'\<lparr>entries := (entries w')(d \<mapsto> Dir)\<rparr>, tr))))"

subsection \<open>\<open>bytes.decode('utf-8')\<close> and \<open>str.strip()\<close>\<close>

definition cont :: "nat \<Rightarrow> bool" where
  "cont b = (0x80 \<le> b \<and> b \<le> 0xBF)"

definition lo2 :: "nat \<Rightarrow> nat" where
  \<comment> \<open>least second octet after the lead octet \<open>b\<close>: no overlong forms\<close>
  "lo2 b = (if b = 0xE0 then 0xA0 else if b = 0xF0 then 0x90 else 0x80)"

definition hi2 :: "nat \<Rightarrow> nat" where
  \<comment> \<open>greatest second octet after the lead octet \<open>b\<close>: no surrogates, nothing above
      \<open>0x10FFFF\<close>\<close>
  "hi2 b = (if b = 0xED then 0x9F else if b = 0xF4 then 0x8F else 0xBF)"

fun utf8_decode :: "nat list \<Rightarrow> pystr option" where
  "utf8_decode [] = Some []"
| "utf8_decode (b # bs) =
    (if b < 0x80 then map_option (Cons b) (utf8_decode bs)
     else if 0xC2 \<le> b \<and> b \<le> 0xDF then
       (case bs of
          c1 # r \<Rightarrow>
            if cont c1
            then map_option (Cons ((b - 0xC0) * 0x40 + (c1 - 0x80))) (utf8_decode r)
            else None
        | _ \<Rightarrow> None)
     else if 0xE0 \<le> b \<and> b \<le> 0xEF then
       (case bs of
          c1 # c2 # r \<Rightarrow>
            if lo2 b \<le> c1 \<and> c1 \<le> hi2 b \<and> cont c2
            then map_option
                   (Cons ((b - 0xE0) * 0x1000 + (c1 - 0x80) * 0x40 + (c2 - 0x80)))
                   (utf8_decode r)
            else None
        | _ \<Rightarrow> None)
     else if 0xF0 \<le> b \<and> b \<le> 0xF4 then
       (case bs of
          c1 # c2 # c3 # r \<Rightarrow>
            if lo2 b \<le> c1 \<and> c1 \<le> hi2 b \<and> cont c2 \<and> cont c3
            then map_option
                   (Cons ((b - 0xF0) * 0x40000 + (c1 - 0x80) * 0x1000
                          + (c2 - 0x80) * 0x40 + (c3 - 0x80)))
                   (utf8_decode r)
            else None
        | _ \<Rightarrow> None)
     else None)"

definition decode_utf8 :: "bytes \<Rightarrow> ('e, pystr) py" where
  "decode_utf8 out = (case utf8_decode (map of_char out) of
      None \<Rightarrow> py_raise UnicodeDecodeError
    | Some x \<Rightarrow> py_return x)"

definition isspace :: "nat \<Rightarrow> bool" where
  "isspace c = ((9 \<le> c \<and> c \<le> 13) \<or> (28 \<le> c \<and> c \<le> 32) \<or> c = 0x85 \<or> c = 0xA0
     \<or> c = 0x1680 \<or> (0x2000 \<le> c \<and> c \<le> 0x200A) \<or> c = 0x2028 \<or> c = 0x2029
     \<or> c = 0x202F \<or> c = 0x205F \<or> c = 0x3000)"

definition strip :: "pystr \<Rightarrow> pystr" where
  "strip x = rev (dropWhile isspace (rev (dropWhile isspace x)))"

definition str_CalledProcessError :: "'e platform \<Rightarrow> pystr \<Rightarrow> int \<Rightarrow> pystr" where
  \<comment> \<open>\<open>CalledProcessError.__str__\<close>\<close>
  "str_CalledProcessError P cmd rc =
     (if rc \<noteq> 0 \<and> rc < 0 then
        (case signal_names P (nat (- rc)) of
           Some name \<Rightarrow>
             lit ''Command '' @ quoted cmd @ lit '' died with <Signals.'' @ name
               @ lit '': '' @ format_d (- rc) @ lit ''>.''
         | None \<Rightarrow>
             lit ''Command '' @ quoted cmd @ lit '' died with unknown signal ''
               @ format_d (- rc) @ lit ''.'')
      else lit ''Command '' @ quoted cmd @ lit '' returned non-zero exit status ''
             @ format_d rc @ lit ''.'')"

section \<open>\<open>utils/auto_git.py\<close>\<close>

definition git_push_master :: "'e platform \<Rightarrow> ('e, unit) py" where
  "git_push_master P =
     except_CalledProcessError
       (py_seq (print (lit ''Aktualisiere Repository mit '' @ quoted (lit ''git push'') @ lit ''...''))
       (py_seq (subprocess_run P (lit ''git push -u origin master''))
               (print (lit ''Repository erfolgreich hochgeladen.''))))
       (\<lambda>cmd rc. py_seq (print (lit ''Fehler beim Git Pull: '' @ str_CalledProcessError P cmd rc))
                    (sys_exit 1))"

definition git_pull :: "'e platform \<Rightarrow> ('e, unit) py" where
  "git_pull P =
     except_CalledProcessError
       (py_seq (print (lit ''Aktualisiere Repository mit '' @ quoted (lit ''git pull'') @ lit ''...''))
       (py_seq (subprocess_run P (lit ''git pull origin master''))
               (print (lit ''Repository erfolgreich aktualisiert.''))))
       (\<lambda>cmd rc. py_seq (print (lit ''Fehler beim Git Pull: '' @ str_CalledProcessError P cmd rc))
                    (sys_exit 1))"

definition install_requirements :: "'e platform \<Rightarrow> pystr \<Rightarrow> ('e, unit) py" where
  "install_requirements P requirements_file = (\<lambda>(w, tr).
     if os_path_exists w requirements_file then
       except_CalledProcessError
         (py_seq (print (lit ''Installiere Abh'' @ [0xE4] @ lit ''ngigkeiten aus ''
                         @ quoted requirements_file @ lit ''...''))
         (py_seq (subprocess_run P (lit ''pip install -r '' @ requirements_file))
                 (print (lit ''Abh'' @ [0xE4] @ lit ''ngigkeiten erfolgreich installiert.''))))
         (\<lambda>cmd rc. py_seq (print (lit ''Fehler bei der Installation der Abh'' @ [0xE4]
                              @ lit ''ngigkeiten: '' @ str_CalledProcessError P cmd rc))
                      (sys_exit 1))
         (w, tr)
     else
       print (lit ''Die Datei '' @ quoted requirements_file @ lit '' wurde nicht gefunden.'')
         (w, tr))"

definition install_requirements_default :: "'e platform \<Rightarrow> ('e, unit) py" where
  \<comment> \<open>the call without an argument\<close>
  "install_requirements_default P = install_requirements P (lit ''requirements.txt'')"

definition git_status :: "'e platform \<Rightarrow> ('e, unit) py" where
  "git_status P =
     except_CalledProcessError
       (py_seq (print (lit ''Zeige aktuellen Git-Status...''))
               (subprocess_run P (lit ''git status'')))
       (\<lambda>cmd rc. py_seq (print (lit ''Fehler beim Anzeigen des Git-Status: '' @ str_CalledProcessError P cmd rc))
                    (sys_exit 1))"

definition backup_project :: "'e platform \<Rightarrow> pystr \<Rightarrow> ('e, unit) py" where
  "backup_project P backup_dir =
     except_CalledProcessError
       (py_seq (os_makedirs_exist_ok P backup_dir)
       (py_seq (subprocess_run P (lit ''cp -r . '' @ backup_dir))
               (print (lit ''Projekt erfolgreich in '' @ quoted backup_dir @ lit '' gesichert.''))))
       (\<lambda>cmd rc. py_seq (print (lit ''Fehler beim Erstellen des Backups: '' @ str_CalledProcessError P cmd rc))
                    (sys_exit 1))"

definition backup_project_default :: "'e platform \<Rightarrow> ('e, unit) py" where
  \<comment> \<open>the call without an argument\<close>
  "backup_project_default P = backup_project P (lit ''backups'')"

definition help_text :: pystr where
  \<comment> \<open>the triple-quoted literal; \<open>10\<close> is the line feed, \<open>0xFC\<close> and \<open>0xE4\<close> the umlauts\<close>
  "help_text =
     [10] @ lit ''Verf'' @ [0xFC] @ lit ''gbare Funktionen:''
     @ [10] @ lit ''- git_pull(): F'' @ [0xFC] @ lit ''hrt einen Git-Pull aus.''
     @ [10] @ lit ''- git_push_master(): F'' @ [0xFC]
            @ lit ''hrt einen Git-Push auf master branch aus.''
     @ [10] @ lit ''- install_requirements(requirements_file=''
            @ quoted (lit ''requirements.txt'') @ lit ''): Installiert Abh'' @ [0xE4]
            @ lit ''ngigkeiten aus requirements.txt.''
     @ [10] @ lit ''- git_status(): Zeigt den Git-Status an.''
     @ [10] @ lit ''- backup_project(backup_dir='' @ quoted (lit ''backups'')
            @ lit ''): Erstellt ein Backup des aktuellen Projekts.''
     @ [10] @ lit ''    ''"

definition show_help :: "('e, unit) py" where
  "show_help = print help_text"

section \<open>\<open>utils/auto_conda.py\<close>\<close>

definition active_env_cmd :: pystr where
  \<comment> \<open>the command line of the \<open>check_output\<close> call\<close>
  "active_env_cmd = lit ''conda info --envs | grep '' @ quoted (lit ''*'')
                    @ lit '' | awk '' @ quoted (lit ''{print $1}'')"

definition freeze_conda_environment ::
  "'e platform \<Rightarrow> pystr option \<Rightarrow> pystr \<Rightarrow> ('e, unit) py" where
  "freeze_conda_environment P env_name output_file =
     except_CalledProcessError
       (py_bind
          (case env_name of
             None \<Rightarrow>
               py_bind (check_output P active_env_cmd) (\<lambda>out.
               py_bind (decode_utf8 out) (\<lambda>decoded.
               py_return (strip decoded)))
           | Some name \<Rightarrow> py_return name)
          (\<lambda>env_name.
       py_seq (print (lit ''Speichere Conda-Umgebung '' @ quoted env_name @ lit '' in ''
                      @ quoted output_file @ lit ''...''))
       (py_seq (subprocess_run P (lit ''conda env export --name '' @ env_name @ lit '' > ''
                                  @ output_file))
               (print (lit ''Umgebung erfolgreich in '' @ quoted output_file
                       @ lit '' gespeichert.'')))))
       (\<lambda>cmd rc. py_seq (print (lit ''Fehler beim Speichern der Conda-Umgebung: '' @ str_CalledProcessError P cmd rc))
                    (sys_exit 1))"

definition freeze_conda_environment_default :: "'e platform \<Rightarrow> ('e, unit) py" where
  \<comment> \<open>the call without arguments\<close>
  "freeze_conda_environment_default P =
     freeze_conda_environment P None (lit ''environment.yml'')"

section \<open>Reading a trace\<close>

fun commands :: "event list \<Rightarrow> pystr list" where
  \<comment> \<open>the command lines handed to the shell, in order\<close>
  "commands [] = []"
| "commands (Print line # es) = commands es"
| "commands (Run cmd r # es) = cmd # commands es"
| "commands (Check_output cmd r # es) = cmd # commands es"

fun failed :: "event \<Rightarrow> bool" where
  \<comment> \<open>a subprocess that ran and left a non-zero exit status\<close>
  "failed (Print line) = False"
| "failed (Run cmd (Exited rc out)) = (rc \<noteq> 0)"
| "failed (Run cmd (Spawn_failed err)) = False"
| "failed (Check_output cmd (Exited rc out)) = (rc \<noteq> 0)"
| "failed (Check_output cmd (Spawn_failed err)) = False"

abbreviation pip_cmd :: "pystr \<Rightarrow> pystr" where
  "pip_cmd requirements_file \<equiv> lit ''pip install -r '' @ requirements_file"

abbreviation cp_cmd :: "pystr \<Rightarrow> pystr" where
  "cp_cmd backup_dir \<equiv> lit ''cp -r . '' @ backup_dir"

abbreviation export_cmd :: "pystr \<Rightarrow> pystr \<Rightarrow> pystr" where
  "export_cmd env_name output_file \<equiv>
     lit ''conda env export --name '' @ env_name @ lit '' > '' @ output_file"

subsection \<open>Machines and directories to run the wrappers on\<close>

definition bare_world :: "unit world" where
  \<comment> \<open>nothing the scripts ask for exists\<close>
  "bare_world = \<lparr>entries = Map.empty, ext = ()\<rparr>"

definition project_world :: "unit world" where
  "project_world =
     \<lparr>entries = [lit ''requirements.txt'' \<mapsto> File, lit ''backups'' \<mapsto> Dir], ext = ()\<rparr>"

definition obliging :: "unit platform" where
  \<comment> \<open>every command succeeds; the active environment is \<open>base\<close>\<close>
  "obliging =
     \<lparr>shell = (\<lambda>cmd w. (Exited 0 (if cmd = active_env_cmd then ''base'' @ [CHR 0x0A] else []), w)),
      os_mkdir = (\<lambda>d w. (None, w)),
      signal_names = (\<lambda>n. if n = 9 then Some (lit ''SIGKILL'') else None)\<rparr>"

definition refusing :: "unit platform" where
  \<comment> \<open>every command exits with status 1 and no directory can be made\<close>
  "refusing =
     \<lparr>shell = (\<lambda>cmd w. (Exited 1 [], w)),
      os_mkdir = (\<lambda>d w. (Some (lit ''Permission denied''), w)),
      signal_names = (\<lambda>n. None)\<rparr>"

definition half_broken :: "unit platform" where
  \<comment> \<open>the active environment can be found, every other command exits with status 1\<close>
  "half_broken =
     \<lparr>shell = (\<lambda>cmd w. if cmd = active_env_cmd then (Exited 0 (''base'' @ [CHR 0x0A]), w)
                         else (Exited 1 [], w)),
      os_mkdir = (\<lambda>d w. (Some (lit ''Permission denied''), w)),
      signal_names = (\<lambda>n. None)\<rparr>"

definition padded :: "unit platform" where
  \<comment> \<open>every command succeeds; the listing comes with blanks around a name that is not
      ASCII, and with a carriage return before the line feed\<close>
  "padded =
     \<lparr>shell = (\<lambda>cmd w. (Exited 0 (if cmd = active_env_cmd
                                     then [CHR 0x20, CHR 0x09, CHR ''f'', CHR 0xC3, CHR 0xBC,
                                           CHR ''r'', CHR 0x20, CHR 0x0D, CHR 0x0A]
                                     else []), w)),
      os_mkdir = (\<lambda>d w. (None, w)),
      signal_names = (\<lambda>n. None)\<rparr>"


section \<open>Running the wrappers\<close>

lemmas py_defs =
  except_CalledProcessError_def py_seq_def py_bind_def py_return_def py_raise_def
  print_def sys_exit_def subprocess_run_def check_output_def decode_utf8_def
  os_makedirs_exist_ok_def

text \<open>
  C7. \<open>git_push_master\<close> hands exactly one command line to the shell,
  \<open>git push -u origin master\<close> (\<open>-u\<close> sets the upstream), and when that command exits
  with status 0 it prints the confirmation and returns.
\<close>

theorem git_push_master_pushes_once:
  "commands (snd (snd (git_push_master P (w, [])))) = [lit ''git push -u origin master'']
   \<and> (shell P (lit ''git push -u origin master'') w = (Exited 0 out, w') \<longrightarrow>
        git_push_master P (w, tr) =
          (Inr (), (w', tr @ [
             Print (lit ''Aktualisiere Repository mit '' @ quoted (lit ''git push'') @ lit ''...''),
             Run (lit ''git push -u origin master'') (Exited 0 out),
             Print (lit ''Repository erfolgreich hochgeladen.'')])))"
  by (simp add: git_push_master_def py_defs split: prod.splits proc_result.splits)

theorem git_push_master_pushes_once_witness:
  "shell obliging (lit ''git push -u origin master'') bare_world = (Exited 0 [], bare_world)
   \<and> git_push_master obliging (bare_world, []) =
       (Inr (), (bare_world, [
          Print (lit ''Aktualisiere Repository mit '' @ quoted (lit ''git push'') @ lit ''...''),
          Run (lit ''git push -u origin master'') (Exited 0 []),
          Print (lit ''Repository erfolgreich hochgeladen.'')]))"
  using git_push_master_pushes_once [of obliging bare_world "[]" bare_world "[]"]
  by (simp add: obliging_def active_env_cmd_def lit_def quoted_def)

text \<open>
  C2. When the path given to \<open>install_requirements\<close> does not exist, the function
  prints the file-not-found line and returns normally: nothing is raised, the process
  is not left, no subprocess is started and the world is as it was.
\<close>

theorem install_requirements_missing_file:
  "\<not> os_path_exists w p \<Longrightarrow>
     install_requirements P p (w, tr) =
       (Inr (), (w, tr @ [Print (lit ''Die Datei '' @ quoted p @ lit '' wurde nicht gefunden.'')]))
     \<and> commands (snd (snd (install_requirements P p (w, [])))) = []"
  by (simp add: install_requirements_def print_def)

theorem install_requirements_missing_file_witness:
  "\<not> os_path_exists bare_world (lit ''missing.txt'')
   \<and> install_requirements refusing (lit ''missing.txt'') (bare_world, []) =
       (Inr (), (bare_world,
          [Print (lit ''Die Datei '' @ quoted (lit ''missing.txt'') @ lit '' wurde nicht gefunden.'')]))
   \<and> commands (snd (snd (install_requirements refusing (lit ''missing.txt'') (bare_world, [])))) = []"
  using install_requirements_missing_file [of bare_world "lit ''missing.txt''" refusing "[]"]
  by (simp add: os_path_exists_def bare_world_def)

text \<open>
  C3. When the path given to \<open>install_requirements\<close> exists, exactly one command line
  reaches the shell, \<open>pip install -r\<close> followed by that path, and when the command exits
  with status 0 the confirmation is printed and the function returns.
\<close>

theorem install_requirements_existing_file:
  "os_path_exists w p \<Longrightarrow>
     commands (snd (snd (install_requirements P p (w, [])))) = [lit ''pip install -r '' @ p]
     \<and> (shell P (lit ''pip install -r '' @ p) w = (Exited 0 out, w') \<longrightarrow>
          install_requirements P p (w, tr) =
            (Inr (), (w', tr @ [
               Print (lit ''Installiere Abh'' @ [0xE4] @ lit ''ngigkeiten aus '' @ quoted p
                      @ lit ''...''),
               Run (lit ''pip install -r '' @ p) (Exited 0 out),
               Print (lit ''Abh'' @ [0xE4] @ lit ''ngigkeiten erfolgreich installiert.'')])))"
  by (simp add: install_requirements_def py_defs split: prod.splits proc_result.splits)

theorem install_requirements_existing_file_witness:
  "os_path_exists project_world (lit ''requirements.txt'')
   \<and> shell obliging (lit ''pip install -r '' @ lit ''requirements.txt'') project_world
       = (Exited 0 [], project_world)
   \<and> commands (snd (snd (install_requirements obliging (lit ''requirements.txt'')
                            (project_world, []))))
       = [lit ''pip install -r '' @ lit ''requirements.txt'']
   \<and> install_requirements obliging (lit ''requirements.txt'') (project_world, []) =
       (Inr (), (project_world, [
          Print (lit ''Installiere Abh'' @ [0xE4] @ lit ''ngigkeiten aus ''
                 @ quoted (lit ''requirements.txt'') @ lit ''...''),
          Run (lit ''pip install -r '' @ lit ''requirements.txt'') (Exited 0 []),
          Print (lit ''Abh'' @ [0xE4] @ lit ''ngigkeiten erfolgreich installiert.'')]))"
  using install_requirements_existing_file
          [of project_world "lit ''requirements.txt''" obliging "[]" project_world "[]"]
  by (simp add: os_path_exists_def project_world_def obliging_def active_env_cmd_def
        lit_def quoted_def)

text \<open>
  C1. Whenever the command a wrapper starts exits with a non-zero status, the wrapper
  prints its diagnostic line, made of its own prefix and the text of the
  \<open>CalledProcessError\<close>, and leaves through \<open>sys.exit(1)\<close>; no other exception
  escapes. This holds for \<open>git_push_master\<close>, \<open>git_pull\<close>, \<open>install_requirements\<close> on an
  existing file, \<open>git_status\<close>, \<open>backup_project\<close> once the directory step has returned,
  and \<open>freeze_conda_environment\<close> with a given name or with the name of the active
  environment.
\<close>

theorem nonzero_exit_prints_and_exits_1:
  assumes "rc \<noteq> 0"
  shows
   "(shell P (lit ''git push -u origin master'') w = (Exited rc out, w') \<longrightarrow>
       git_push_master P (w, tr) =
         (Inl (SystemExit 1), (w', tr @ [
            Print (lit ''Aktualisiere Repository mit '' @ quoted (lit ''git push'') @ lit ''...''),
            Run (lit ''git push -u origin master'') (Exited rc out),
            Print (lit ''Fehler beim Git Pull: ''
                   @ str_CalledProcessError P (lit ''git push -u origin master'') rc)])))
    \<and> (shell P (lit ''git pull origin master'') w = (Exited rc out, w') \<longrightarrow>
       git_pull P (w, tr) =
         (Inl (SystemExit 1), (w', tr @ [
            Print (lit ''Aktualisiere Repository mit '' @ quoted (lit ''git pull'') @ lit ''...''),
            Run (lit ''git pull origin master'') (Exited rc out),
            Print (lit ''Fehler beim Git Pull: ''
                   @ str_CalledProcessError P (lit ''git pull origin master'') rc)])))
    \<and> (os_path_exists w p \<and> shell P (pip_cmd p) w = (Exited rc out, w') \<longrightarrow>
       install_requirements P p (w, tr) =
         (Inl (SystemExit 1), (w', tr @ [
            Print (lit ''Installiere Abh'' @ [0xE4] @ lit ''ngigkeiten aus '' @ quoted p
                   @ lit ''...''),
            Run (pip_cmd p) (Exited rc out),
            Print (lit ''Fehler bei der Installation der Abh'' @ [0xE4] @ lit ''ngigkeiten: ''
                   @ str_CalledProcessError P (pip_cmd p) rc)])))
    \<and> (shell P (lit ''git status'') w = (Exited rc out, w') \<longrightarrow>
       git_status P (w, tr) =
         (Inl (SystemExit 1), (w', tr @ [
            Print (lit ''Zeige aktuellen Git-Status...''),
            Run (lit ''git status'') (Exited rc out),
            Print (lit ''Fehler beim Anzeigen des Git-Status: ''
                   @ str_CalledProcessError P (lit ''git status'') rc)])))
    \<and> (os_makedirs_exist_ok P d (w, tr) = (Inr (), (w1, tr1))
        \<and> shell P (cp_cmd d) w1 = (Exited rc out, w') \<longrightarrow>
       backup_project P d (w, tr) =
         (Inl (SystemExit 1), (w', tr1 @ [
            Run (cp_cmd d) (Exited rc out),
            Print (lit ''Fehler beim Erstellen des Backups: ''
                   @ str_CalledProcessError P (cp_cmd d) rc)])))
    \<and> (shell P (export_cmd n f) w = (Exited rc out, w') \<longrightarrow>
       freeze_conda_environment P (Some n) f (w, tr) =
         (Inl (SystemExit 1), (w', tr @ [
            Print (lit ''Speichere Conda-Umgebung '' @ quoted n @ lit '' in '' @ quoted f
                   @ lit ''...''),
            Run (export_cmd n f) (Exited rc out),
            Print (lit ''Fehler beim Speichern der Conda-Umgebung: ''
                   @ str_CalledProcessError P (export_cmd n f) rc)])))
    \<and> (shell P active_env_cmd w = (Exited 0 listing, w2)
        \<and> utf8_decode (map of_char listing) = Some decoded
        \<and> shell P (export_cmd (strip decoded) f) w2 = (Exited rc out, w') \<longrightarrow>
       freeze_conda_environment P None f (w, tr) =
         (Inl (SystemExit 1), (w', tr @ [
            Check_output active_env_cmd (Exited 0 listing),
            Print (lit ''Speichere Conda-Umgebung '' @ quoted (strip decoded) @ lit '' in ''
                   @ quoted f @ lit ''...''),
            Run (export_cmd (strip decoded) f) (Exited rc out),
            Print (lit ''Fehler beim Speichern der Conda-Umgebung: ''
                   @ str_CalledProcessError P (export_cmd (strip decoded) f) rc)])))"
proof (intro conjI impI)
  assume "shell P (lit ''git push -u origin master'') w = (Exited rc out, w')"
  with assms show "git_push_master P (w, tr) =
         (Inl (SystemExit 1), (w', tr @ [
            Print (lit ''Aktualisiere Repository mit '' @ quoted (lit ''git push'') @ lit ''...''),
            Run (lit ''git push -u origin master'') (Exited rc out),
            Print (lit ''Fehler beim Git Pull: ''
                   @ str_CalledProcessError P (lit ''git push -u origin master'') rc)]))"
    by (simp add: git_push_master_def py_defs)
next
  assume "shell P (lit ''git pull origin master'') w = (Exited rc out, w')"
  with assms show "git_pull P (w, tr) =
         (Inl (SystemExit 1), (w', tr @ [
            Print (lit ''Aktualisiere Repository mit '' @ quoted (lit ''git pull'') @ lit ''...''),
            Run (lit ''git pull origin master'') (Exited rc out),
            Print (lit ''Fehler beim Git Pull: ''
                   @ str_CalledProcessError P (lit ''git pull origin master'') rc)]))"
    by (simp add: git_pull_def py_defs)
next
  assume "os_path_exists w p \<and> shell P (pip_cmd p) w = (Exited rc out, w')"
  with assms show "install_requirements P p (w, tr) =
         (Inl (SystemExit 1), (w', tr @ [
            Print (lit ''Installiere Abh'' @ [0xE4] @ lit ''ngigkeiten aus '' @ quoted p
                   @ lit ''...''),
            Run (pip_cmd p) (Exited rc out),
            Print (lit ''Fehler bei der Installation der Abh'' @ [0xE4] @ lit ''ngigkeiten: ''
                   @ str_CalledProcessError P (pip_cmd p) rc)]))"
    by (simp add: install_requirements_def py_defs)
next
  assume "shell P (lit ''git status'') w = (Exited rc out, w')"
  with assms show "git_status P (w, tr) =
         (Inl (SystemExit 1), (w', tr @ [
            Print (lit ''Zeige aktuellen Git-Status...''),
            Run (lit ''git status'') (Exited rc out),
            Print (lit ''Fehler beim Anzeigen des Git-Status: ''
                   @ str_CalledProcessError P (lit ''git status'') rc)]))"
    by (simp add: git_status_def py_defs)
next
  assume "os_makedirs_exist_ok P d (w, tr) = (Inr (), (w1, tr1))
        \<and> shell P (cp_cmd d) w1 = (Exited rc out, w')"
  with assms show "backup_project P d (w, tr) =
         (Inl (SystemExit 1), (w', tr1 @ [
            Run (cp_cmd d) (Exited rc out),
            Print (lit ''Fehler beim Erstellen des Backups: ''
                   @ str_CalledProcessError P (cp_cmd d) rc)]))"
    by (simp add: backup_project_def except_CalledProcessError_def py_seq_def py_bind_def
          py_raise_def print_def sys_exit_def subprocess_run_def)
next
  assume "shell P (export_cmd n f) w = (Exited rc out, w')"
  with assms show "freeze_conda_environment P (Some n) f (w, tr) =
         (Inl (SystemExit 1), (w', tr @ [
            Print (lit ''Speichere Conda-Umgebung '' @ quoted n @ lit '' in '' @ quoted f
                   @ lit ''...''),
            Run (export_cmd n f) (Exited rc out),
            Print (lit ''Fehler beim Speichern der Conda-Umgebung: ''
                   @ str_CalledProcessError P (export_cmd n f) rc)]))"
    by (simp add: freeze_conda_environment_def py_defs)
next
  assume "shell P active_env_cmd w = (Exited 0 listing, w2)
        \<and> utf8_decode (map of_char listing) = Some decoded
        \<and> shell P (export_cmd (strip decoded) f) w2 = (Exited rc out, w')"
  with assms show "freeze_conda_environment P None f (w, tr) =
         (Inl (SystemExit 1), (w', tr @ [
            Check_output active_env_cmd (Exited 0 listing),
            Print (lit ''Speichere Conda-Umgebung '' @ quoted (strip decoded) @ lit '' in ''
                   @ quoted f @ lit ''...''),
            Run (export_cmd (strip decoded) f) (Exited rc out),
            Print (lit ''Fehler beim Speichern der Conda-Umgebung: ''
                   @ str_CalledProcessError P (export_cmd (strip decoded) f) rc)]))"
    by (simp add: freeze_conda_environment_def py_defs)
qed

theorem nonzero_exit_prints_and_exits_1_witness:
  "(1::int) \<noteq> 0
   \<and> shell half_broken (lit ''git push -u origin master'') project_world
       = (Exited 1 [], project_world)
   \<and> git_push_master half_broken (project_world, []) =
       (Inl (SystemExit 1), (project_world, [
          Print (lit ''Aktualisiere Repository mit '' @ quoted (lit ''git push'') @ lit ''...''),
          Run (lit ''git push -u origin master'') (Exited 1 []),
          Print (lit ''Fehler beim Git Pull: Command '' @ quoted (lit ''git push -u origin master'')
                 @ lit '' returned non-zero exit status 1.'')]))
   \<and> shell half_broken (lit ''git pull origin master'') project_world
       = (Exited 1 [], project_world)
   \<and> fst (git_pull half_broken (project_world, [])) = Inl (SystemExit 1)
   \<and> os_path_exists project_world (lit ''requirements.txt'')
   \<and> shell half_broken (pip_cmd (lit ''requirements.txt'')) project_world
       = (Exited 1 [], project_world)
   \<and> fst (install_requirements half_broken (lit ''requirements.txt'') (project_world, []))
       = Inl (SystemExit 1)
   \<and> shell half_broken (lit ''git status'') project_world = (Exited 1 [], project_world)
   \<and> fst (git_status half_broken (project_world, [])) = Inl (SystemExit 1)
   \<and> os_makedirs_exist_ok half_broken (lit ''backups'') (project_world, [])
       = (Inr (), (project_world, []))
   \<and> shell half_broken (cp_cmd (lit ''backups'')) project_world = (Exited 1 [], project_world)
   \<and> fst (backup_project half_broken (lit ''backups'') (project_world, []))
       = Inl (SystemExit 1)
   \<and> shell half_broken (export_cmd (lit ''base'') (lit ''environment.yml'')) project_world
       = (Exited 1 [], project_world)
   \<and> fst (freeze_conda_environment half_broken (Some (lit ''base'')) (lit ''environment.yml'')
             (project_world, [])) = Inl (SystemExit 1)
   \<and> shell half_broken active_env_cmd project_world
       = (Exited 0 (''base'' @ [CHR 0x0A]), project_world)
   \<and> utf8_decode (map of_char (''base'' @ [CHR 0x0A])) = Some (lit ''base'' @ [10])
   \<and> strip (lit ''base'' @ [10]) = lit ''base''
   \<and> fst (freeze_conda_environment half_broken None (lit ''environment.yml'')
             (project_world, [])) = Inl (SystemExit 1)"
  using nonzero_exit_prints_and_exits_1
          [where rc = 1 and P = half_broken and w = project_world and out = "[]"
             and w' = project_world and tr = "[]" and p = "lit ''requirements.txt''"
             and d = "lit ''backups''" and ?w1.0 = project_world and ?tr1.0 = "[]"
             and n = "lit ''base''" and f = "lit ''environment.yml''"
             and listing = "''base'' @ [CHR 0x0A]" and ?w2.0 = project_world
             and decoded = "lit ''base'' @ [10]"]
  by (simp add: half_broken_def project_world_def os_path_exists_def
        os_makedirs_exist_ok_def active_env_cmd_def lit_def quoted_def strip_def isspace_def
        str_CalledProcessError_def format_d_def digits.simps)

text \<open>
  C4. Called with a given environment name, \<open>freeze_conda_environment\<close> hands exactly
  one command line to the shell: the export of that name, with \<open>> output_file\<close> at its
  end. The command line that asks for the active environment is not among the commands
  it runs.
\<close>

theorem freeze_named_runs_export_only:
  "commands (snd (snd (freeze_conda_environment P (Some n) f (w, []))))
     = [lit ''conda env export --name '' @ n @ lit '' > '' @ f]
   \<and> active_env_cmd
       \<notin> set (commands (snd (snd (freeze_conda_environment P (Some n) f (w, [])))))"
proof -
  have run: "commands (snd (snd (freeze_conda_environment P (Some n) f (w, []))))
     = [lit ''conda env export --name '' @ n @ lit '' > '' @ f]"
    by (simp add: freeze_conda_environment_def py_defs split: prod.splits proc_result.splits)
  have other: "lit ''conda env export --name '' @ n @ lit '' > '' @ f \<noteq> active_env_cmd"
    by (simp add: lit_def active_env_cmd_def quoted_def)
  from other show ?thesis
    unfolding run by simp
qed

text \<open>
  C5. Called without an environment name, \<open>freeze_conda_environment\<close> starts with the
  command line \<open>conda info --envs | grep '*' | awk '{print $1}'\<close>, which lists the
  environments and keeps the first column of the starred, that is active, entry. When
  that command exits with status 0 and its output is UTF-8, the name is that output
  without the white space at its two ends, and the call goes on exactly as a call with
  that name: the two command lines it runs are the listing and the export of the name
  with \<open>> output_file\<close> at its end.
\<close>

theorem freeze_unset_resolves_then_exports:
  "take 1 (snd (snd (freeze_conda_environment P None f (w, []))))
     = [Check_output
          (lit ''conda info --envs | grep '' @ [39] @ lit ''*'' @ [39] @ lit '' | awk ''
           @ [39] @ lit ''{print $1}'' @ [39])
          (fst (shell P
             (lit ''conda info --envs | grep '' @ [39] @ lit ''*'' @ [39] @ lit '' | awk ''
              @ [39] @ lit ''{print $1}'' @ [39]) w))]
   \<and> (shell P
          (lit ''conda info --envs | grep '' @ [39] @ lit ''*'' @ [39] @ lit '' | awk ''
           @ [39] @ lit ''{print $1}'' @ [39]) w = (Exited 0 listing, w1)
        \<and> utf8_decode (map of_char listing) = Some decoded \<longrightarrow>
        freeze_conda_environment P None f (w, tr) =
          freeze_conda_environment P
            (Some (rev (dropWhile isspace (rev (dropWhile isspace decoded))))) f
            (w1, tr @ [Check_output
                (lit ''conda info --envs | grep '' @ [39] @ lit ''*'' @ [39] @ lit '' | awk ''
                 @ [39] @ lit ''{print $1}'' @ [39])
                (Exited 0 listing)])
        \<and> commands (snd (snd (freeze_conda_environment P None f (w, []))))
            = [lit ''conda info --envs | grep '' @ [39] @ lit ''*'' @ [39] @ lit '' | awk ''
               @ [39] @ lit ''{print $1}'' @ [39],
               lit ''conda env export --name ''
               @ rev (dropWhile isspace (rev (dropWhile isspace decoded)))
               @ lit '' > '' @ f])"
proof -
  have cmd: "lit ''conda info --envs | grep '' @ [39] @ lit ''*'' @ [39] @ lit '' | awk ''
             @ [39] @ lit ''{print $1}'' @ [39] = active_env_cmd"
    by (simp add: active_env_cmd_def quoted_def)
  have first: "take 1 (snd (snd (freeze_conda_environment P None f (w, []))))
     = [Check_output active_env_cmd (fst (shell P active_env_cmd w))]"
    by (simp add: freeze_conda_environment_def py_defs
          split: prod.splits proc_result.splits option.splits)
  have goes_on: "freeze_conda_environment P None f (w, tr) =
          freeze_conda_environment P
            (Some (rev (dropWhile isspace (rev (dropWhile isspace decoded))))) f
            (w1, tr @ [Check_output active_env_cmd (Exited 0 listing)])"
    if "shell P active_env_cmd w = (Exited 0 listing, w1)"
      and "utf8_decode (map of_char listing) = Some decoded"
    using that by (simp add: freeze_conda_environment_def py_defs strip_def)
  have both: "commands (snd (snd (freeze_conda_environment P None f (w, []))))
            = [active_env_cmd,
               lit ''conda env export --name ''
               @ rev (dropWhile isspace (rev (dropWhile isspace decoded)))
               @ lit '' > '' @ f]"
    if "shell P active_env_cmd w = (Exited 0 listing, w1)"
      and "utf8_decode (map of_char listing) = Some decoded"
    using that by (simp add: freeze_conda_environment_def py_defs strip_def
          split: prod.splits proc_result.splits)
  show ?thesis
    unfolding cmd using first goes_on both by blast
qed

theorem freeze_unset_resolves_then_exports_witness:
  "shell obliging
     (lit ''conda info --envs | grep '' @ [39] @ lit ''*'' @ [39] @ lit '' | awk ''
      @ [39] @ lit ''{print $1}'' @ [39]) bare_world
     = (Exited 0 (''base'' @ [CHR 0x0A]), bare_world)
   \<and> utf8_decode (map of_char (''base'' @ [CHR 0x0A])) = Some (lit ''base'' @ [10])
   \<and> rev (dropWhile isspace (rev (dropWhile isspace (lit ''base'' @ [10])))) = lit ''base''
   \<and> freeze_conda_environment obliging None (lit ''environment.yml'') (bare_world, []) =
       (Inr (), (bare_world, [
          Check_output
            (lit ''conda info --envs | grep '' @ [39] @ lit ''*'' @ [39] @ lit '' | awk ''
             @ [39] @ lit ''{print $1}'' @ [39])
            (Exited 0 (''base'' @ [CHR 0x0A])),
          Print (lit ''Speichere Conda-Umgebung '' @ [39] @ lit ''base'' @ [39] @ lit '' in ''
                 @ [39] @ lit ''environment.yml'' @ [39] @ lit ''...''),
          Run (lit ''conda env export --name base > environment.yml'') (Exited 0 []),
          Print (lit ''Umgebung erfolgreich in '' @ [39] @ lit ''environment.yml'' @ [39]
                 @ lit '' gespeichert.'')]))
   \<and> shell padded
       (lit ''conda info --envs | grep '' @ [39] @ lit ''*'' @ [39] @ lit '' | awk ''
        @ [39] @ lit ''{print $1}'' @ [39]) bare_world
       = (Exited 0 [CHR 0x20, CHR 0x09, CHR ''f'', CHR 0xC3, CHR 0xBC, CHR ''r'', CHR 0x20,
                    CHR 0x0D, CHR 0x0A], bare_world)
   \<and> utf8_decode (map of_char [CHR 0x20, CHR 0x09, CHR ''f'', CHR 0xC3, CHR 0xBC, CHR ''r'',
                                CHR 0x20, CHR 0x0D, CHR 0x0A])
       = Some [32, 9, 102, 0xFC, 114, 32, 13, 10]
   \<and> rev (dropWhile isspace (rev (dropWhile isspace [32, 9, 102, 0xFC, 114, 32, 13, 10])))
       = [102, 0xFC, 114]
   \<and> commands (snd (snd (freeze_conda_environment padded None (lit ''env.yml'')
                            (bare_world, []))))
       = [lit ''conda info --envs | grep '' @ [39] @ lit ''*'' @ [39] @ lit '' | awk ''
          @ [39] @ lit ''{print $1}'' @ [39],
          lit ''conda env export --name '' @ [102, 0xFC, 114] @ lit '' > env.yml'']"
  using freeze_unset_resolves_then_exports
          [where P = obliging and w = bare_world and listing = "''base'' @ [CHR 0x0A]"
             and ?w1.0 = bare_world and decoded = "lit ''base'' @ [10]"
             and f = "lit ''environment.yml''" and tr = "[]"]
        freeze_unset_resolves_then_exports
          [where P = padded and w = bare_world
             and listing = "[CHR 0x20, CHR 0x09, CHR ''f'', CHR 0xC3, CHR 0xBC, CHR ''r'',
                             CHR 0x20, CHR 0x0D, CHR 0x0A]"
             and ?w1.0 = bare_world and decoded = "[32, 9, 102, 0xFC, 114, 32, 13, 10]"
             and f = "lit ''env.yml''" and tr = "[]"]
  by (simp add: obliging_def padded_def active_env_cmd_def lit_def quoted_def isspace_def
        cont_def freeze_conda_environment_def py_defs)

text \<open>
  C10. Called without an environment name, a non-zero exit status of the command that
  finds the active environment is caught by the same handler as a failure of the
  export: the diagnostic line is printed and the function leaves through
  \<open>sys.exit(1)\<close>; the export command is never started.
\<close>

theorem freeze_unset_listing_failure_is_caught:
  "shell P active_env_cmd w = (Exited rc listing, w1) \<Longrightarrow> rc \<noteq> 0 \<Longrightarrow>
     freeze_conda_environment P None f (w, tr) =
       (Inl (SystemExit 1), (w1, tr @ [
          Check_output active_env_cmd (Exited rc listing),
          Print (lit ''Fehler beim Speichern der Conda-Umgebung: ''
                 @ str_CalledProcessError P active_env_cmd rc)]))"
  by (simp add: freeze_conda_environment_def py_defs)

theorem freeze_unset_listing_failure_is_caught_witness:
  "shell refusing active_env_cmd bare_world = (Exited 1 [], bare_world)
   \<and> (1::int) \<noteq> 0
   \<and> freeze_conda_environment refusing None (lit ''environment.yml'') (bare_world, []) =
       (Inl (SystemExit 1), (bare_world, [
          Check_output active_env_cmd (Exited 1 []),
          Print (lit ''Fehler beim Speichern der Conda-Umgebung: Command ''
                 @ quoted active_env_cmd @ lit '' returned non-zero exit status 1.'')]))"
  using freeze_unset_listing_failure_is_caught
          [of refusing bare_world 1 "[]" bare_world "lit ''environment.yml''" "[]"]
  by (simp add: refusing_def str_CalledProcessError_def format_d_def digits.simps lit_def)




text \<open>
  C9. In \<open>backup_project\<close> only the failure of the copy command is turned into a
  diagnostic line and \<open>sys.exit(1)\<close>. An exception of the directory step leaves the
  function as it is: an \<open>OSError\<close> of \<open>os.makedirs\<close>, such as a refused permission,
  reaches the caller, nothing is printed and the copy is not started. The function ends
  with \<open>SystemExit 1\<close> exactly when a started command left a non-zero exit status.
\<close>

theorem backup_project_makedirs_error_propagates:
  "(os_makedirs_exist_ok P d (w, tr) = (Inl e, st1) \<longrightarrow>
      backup_project P d (w, tr) = (Inl e, st1) \<and> e \<noteq> SystemExit 1 \<and> snd st1 = tr)
   \<and> (entries w d = None \<and> os_mkdir P d w = (Some err, w1) \<longrightarrow>
        backup_project P d (w, tr) = (Inl (OSError err), (w1, tr)))
   \<and> ((fst (backup_project P d (w, [])) = Inl (SystemExit 1))
        = list_ex failed (snd (snd (backup_project P d (w, [])))))"
proof (intro conjI impI)
  assume h: "os_makedirs_exist_ok P d (w, tr) = (Inl e, st1)"
  then obtain err where e: "e = OSError err"
    by (auto simp add: os_makedirs_exist_ok_def split: option.splits node.splits prod.splits)
  from h e show "backup_project P d (w, tr) = (Inl e, st1)"
    by (simp add: backup_project_def except_CalledProcessError_def py_seq_def py_bind_def)
  from e show "e \<noteq> SystemExit 1"
    by simp
  from h show "snd st1 = tr"
    by (auto simp add: os_makedirs_exist_ok_def split: option.splits node.splits prod.splits)
next
  assume "entries w d = None \<and> os_mkdir P d w = (Some err, w1)"
  then show "backup_project P d (w, tr) = (Inl (OSError err), (w1, tr))"
    by (simp add: backup_project_def os_makedirs_exist_ok_def except_CalledProcessError_def
          py_seq_def py_bind_def)
next
  show "(fst (backup_project P d (w, [])) = Inl (SystemExit 1))
        = list_ex failed (snd (snd (backup_project P d (w, []))))"
    by (simp add: backup_project_def py_defs
          split: option.splits node.splits prod.splits proc_result.splits)
qed

theorem backup_project_makedirs_error_propagates_witness:
  "entries bare_world (lit ''backups'') = None
   \<and> os_mkdir refusing (lit ''backups'') bare_world = (Some (lit ''Permission denied''), bare_world)
   \<and> os_makedirs_exist_ok refusing (lit ''backups'') (bare_world, [])
       = (Inl (OSError (lit ''Permission denied'')), (bare_world, []))
   \<and> backup_project refusing (lit ''backups'') (bare_world, [])
       = (Inl (OSError (lit ''Permission denied'')), (bare_world, []))
   \<and> \<not> list_ex failed (snd (snd (backup_project refusing (lit ''backups'') (bare_world, []))))"
  using backup_project_makedirs_error_propagates
          [where P = refusing and d = "lit ''backups''" and w = bare_world and tr = "[]"
             and e = "OSError (lit ''Permission denied'')" and ?st1.0 = "(bare_world, [])"
             and err = "lit ''Permission denied''" and ?w1.0 = bare_world]
  by (simp add: refusing_def bare_world_def os_makedirs_exist_ok_def)

lemma sublist_skip: "sublist xs zs \<Longrightarrow> sublist xs (ys @ zs)"
proof -
  assume "sublist xs zs"
  then obtain ps ss where "zs = ps @ xs @ ss"
    by (auto simp add: sublist_def)
  then have "ys @ zs = (ys @ ps) @ xs @ ss"
    by simp
  then show ?thesis
    unfolding sublist_def by blast
qed

text \<open>
  C8. \<open>show_help\<close> prints one fixed text and does nothing else: it returns normally,
  leaves the world as it was and starts no subprocess. The text does not depend on the
  machine or the file system; it has seven line feeds, and it holds an entry for each of
  the five operations \<open>git_pull\<close>, \<open>git_push_master\<close>, \<open>install_requirements\<close>,
  \<open>git_status\<close> and \<open>backup_project\<close>.
\<close>

theorem show_help_prints_static_text:
  "show_help (w, tr) = (Inr (), (w, tr @ [Print help_text]))
   \<and> commands (snd (snd (show_help (w, [])))) = []
   \<and> count_list help_text 10 = 7
   \<and> sublist (lit ''- git_pull(): F'') help_text
   \<and> sublist (lit ''- git_push_master(): F'') help_text
   \<and> sublist (lit ''- install_requirements(requirements_file='') help_text
   \<and> sublist (lit ''- git_status(): Zeigt den Git-Status an.'') help_text
   \<and> sublist (lit ''- backup_project(backup_dir='') help_text"
proof (intro conjI)
  show "show_help (w, tr) = (Inr (), (w, tr @ [Print help_text]))"
    by (simp add: show_help_def print_def)
  show "commands (snd (snd (show_help (w, [])))) = []"
    by (simp add: show_help_def print_def)
  show "count_list help_text 10 = 7"
    by (simp add: help_text_def lit_def quoted_def)
  show "sublist (lit ''- git_pull(): F'') help_text"
    unfolding help_text_def
    by (intro sublist_skip sublist_append_rightI)
  show "sublist (lit ''- git_push_master(): F'') help_text"
    unfolding help_text_def
    by (intro sublist_skip sublist_append_rightI)
  show "sublist (lit ''- install_requirements(requirements_file='') help_text"
    unfolding help_text_def
    by (intro sublist_skip sublist_append_rightI)
  show "sublist (lit ''- git_status(): Zeigt den Git-Status an.'') help_text"
    unfolding help_text_def
    by (intro sublist_skip sublist_append_rightI)
  show "sublist (lit ''- backup_project(backup_dir='') help_text"
    unfolding help_text_def
    by (intro sublist_skip sublist_append_rightI)
qed

end
